theory Spec2Isabelle
  imports Main "HOL-Library.Word"
begin

section \<open>Closure form: the continuation monad (cont.go, monad.go, run.go)\<close>

text \<open>
  \<^verbatim>\<open>type Cont[R, A any] func(k func(A) R) R\<close>: a computation is a function from
  a continuation to the answer.
\<close>

type_synonym ('r, 'a) Cont = "('a \<Rightarrow> 'r) \<Rightarrow> 'r"

definition Return :: "'a \<Rightarrow> ('r, 'a) Cont" where
  "Return a = (\<lambda>k. k a)"

definition Suspend :: "(('a \<Rightarrow> 'r) \<Rightarrow> 'r) \<Rightarrow> ('r, 'a) Cont" where
  "Suspend f = f"

definition Bind :: "('r, 'a) Cont \<Rightarrow> ('a \<Rightarrow> ('r, 'b) Cont) \<Rightarrow> ('r, 'b) Cont" where
  "Bind m f = (\<lambda>k. m (\<lambda>a. f a k))"

definition Map :: "('r, 'a) Cont \<Rightarrow> ('a \<Rightarrow> 'b) \<Rightarrow> ('r, 'b) Cont" where
  "Map m f = (\<lambda>k. m (\<lambda>a. k (f a)))"

definition Then :: "('r, 'a) Cont \<Rightarrow> ('r, 'b) Cont \<Rightarrow> ('r, 'b) Cont" where
  "Then m n = (\<lambda>k. m (\<lambda>_. n k))"

definition identity :: "'a \<Rightarrow> 'a" where
  "identity a = a"

definition Run :: "('a, 'a) Cont \<Rightarrow> 'a" where
  "Run m = m identity"

definition RunWith :: "('r, 'a) Cont \<Rightarrow> ('a \<Rightarrow> 'r) \<Rightarrow> 'r" where
  "RunWith m k = m k"

subsection \<open>Delimited control\<close>

definition Shift :: "(('a \<Rightarrow> 'r) \<Rightarrow> 'r) \<Rightarrow> ('r, 'a) Cont" where
  "Shift f = f"

definition Reset :: "('a, 'a) Cont \<Rightarrow> ('r, 'a) Cont" where
  "Reset m = Return (Run m)"

text \<open>Go's \<^verbatim>\<open>int\<close> on a 64-bit platform: two's complement, \<open>+\<close> and \<open>*\<close> wrap.\<close>

type_synonym go_int = "64 word"

section \<open>Values, types and panics\<close>

text \<open>
  \<^verbatim>\<open>Resumed\<close>, \<^verbatim>\<open>Erased\<close> and \<^verbatim>\<open>Operation\<close> are all \<^verbatim>\<open>any\<close>. Plain (non-suspension)
  values of \<^verbatim>\<open>any\<close> form the type \<open>val\<close>; \<open>VNil\<close> is the nil interface value,
  \<open>VUnit\<close> is \<^verbatim>\<open>struct{}{}\<close>, and \<open>VEither isRight left right\<close> is the struct
  \<^verbatim>\<open>Either[E, A]\<close> of error.go.
\<close>

datatype val = VNil | VInt go_int | VUnit | VStr string | VBool bool
  | VEither bool val val

text \<open>
  A Go panic is a value of the model: either \<^verbatim>\<open>panic(msg)\<close> with its message, or the
  run-time error of a failed type assertion \<^verbatim>\<open>x.(T)\<close>, or a nil pointer dereference.
\<close>

datatype panic = PanicMsg string | TypeAssertionError | NilDereference

type_synonym 'a res = "panic + 'a"

text \<open>
  A type parameter (\<^verbatim>\<open>A\<close>, \<^verbatim>\<open>R\<close>, \<^verbatim>\<open>E\<close>) is passed explicitly as a descriptor:
  its zero value (\<^verbatim>\<open>var zero A\<close>) and the non-nil dynamic values that a type assertion
  to it accepts. For an interface type the zero value is \<open>VNil\<close>.
\<close>

record gotype =
  zero :: val
  has :: "val \<Rightarrow> bool"

text \<open>
  \<^verbatim>\<open>x.(T)\<close>: the Go specification lets the assertion hold only if \<^verbatim>\<open>x\<close> is not nil and
  the value stored in \<^verbatim>\<open>x\<close> is of type \<^verbatim>\<open>T\<close>; otherwise a run-time panic occurs.
\<close>

definition cast :: "gotype \<Rightarrow> val \<Rightarrow> val res" where
  "cast T v = (if v \<noteq> VNil \<and> has T v then Inr v else Inl TypeAssertionError)"

text \<open>A value that a variable or field of static type \<open>T\<close> may hold.\<close>

definition inhabits :: "gotype \<Rightarrow> val \<Rightarrow> bool" where
  "inhabits T v = (if v = VNil then zero T = VNil else has T v)"

definition T_int :: gotype where
  "T_int = \<lparr>zero = VInt 0, has = (\<lambda>v. case v of VInt _ \<Rightarrow> True | _ \<Rightarrow> False)\<rparr>"

definition T_unit :: gotype where
  "T_unit = \<lparr>zero = VUnit, has = (\<lambda>v. v = VUnit)\<rparr>"


definition T_any :: gotype where
  "T_any = \<lparr>zero = VNil, has = (\<lambda>v. True)\<rparr>"

definition T_Either :: "gotype \<Rightarrow> gotype \<Rightarrow> gotype" where
  "T_Either E A = \<lparr>zero = VEither False (zero E) (zero A),
     has = (\<lambda>v. case v of VEither b l r \<Rightarrow> inhabits E l \<and> inhabits A r | _ \<Rightarrow> False)\<rparr>"

subsection \<open>Either (error.go)\<close>

definition Left :: "gotype \<Rightarrow> gotype \<Rightarrow> val \<Rightarrow> val" where
  "Left E A e = VEither False e (zero A)"

definition Right :: "gotype \<Rightarrow> gotype \<Rightarrow> val \<Rightarrow> val" where
  "Right E A a = VEither True (zero E) a"

definition IsRight :: "val \<Rightarrow> bool" where
  "IsRight e = (case e of VEither b l r \<Rightarrow> b | _ \<Rightarrow> False)"

definition IsLeft :: "val \<Rightarrow> bool" where
  "IsLeft e = (\<not> IsRight e)"

definition GetRight :: "gotype \<Rightarrow> val \<Rightarrow> val \<times> bool" where
  "GetRight A e = (case e of VEither b l r \<Rightarrow> (if b then (r, True) else (zero A, False))
                   | _ \<Rightarrow> (zero A, False))"

definition GetLeft :: "gotype \<Rightarrow> val \<Rightarrow> val \<times> bool" where
  "GetLeft E e = (case e of VEither b l r \<Rightarrow> (if \<not> b then (l, True) else (zero E, False))
                  | _ \<Rightarrow> (zero E, False))"

section \<open>Effect protocol (effect.go)\<close>

text \<open>
  The operations of the standard effects. \<open>OtherOp\<close> stands for an operation with none
  of the dispatch capabilities.

  \<^verbatim>\<open>Catch[E, A]\<close> holds \<^verbatim>\<open>Body Cont[Resumed, A]\<close> and \<^verbatim>\<open>Handler func(E) Cont[Resumed, A]\<close>.
  A HOL datatype cannot hold a function whose argument is a continuation into the type
  being defined, so the two fields are kept already applied to \<^verbatim>\<open>rightCont[E, A]\<close>, the
  one continuation that \<^verbatim>\<open>Catch.DispatchError\<close> (through \<^verbatim>\<open>RunError\<close>) ever passes to
  them; see \<open>CatchError\<close> below.
\<close>

datatype 'a op = Get | Put val | Modify "val \<Rightarrow> val" | Ask | Tell val
  | Throw val
  | Catch gotype gotype "'a res" "val \<Rightarrow> 'a res"
  | OtherOp string

text \<open>
  A value of type \<^verbatim>\<open>Resumed\<close>: a plain value (\<open>Fin VNil\<close> is nil), or an
  \<^verbatim>\<open>effectSuspension\<close> with its \<^verbatim>\<open>Op()\<close> and its \<^verbatim>\<open>Resume\<close> method. The type is
  coinductive: a computation may go on performing operations forever.
\<close>

codatatype resumed = Fin val | Marker "resumed op" "val \<Rightarrow> resumed res"

type_synonym Operation = "resumed op"

text \<open>\<^verbatim>\<open>type Eff[A any] = Cont[Resumed, A]\<close>, where evaluating a \<^verbatim>\<open>Resumed\<close> may panic.\<close>

type_synonym Eff = "(resumed res, val) Cont"

definition unhandledEffect :: "string \<Rightarrow> 'a res" where
  "unhandledEffect handler = Inl (PanicMsg (''kont: unhandled effect in '' @ handler))"

definition toResumed :: "val \<Rightarrow> resumed res" where
  "toResumed a = Inr (Fin a)"

definition Pure :: "val \<Rightarrow> Eff" where
  "Pure a = Return a"

text \<open>
  \<^verbatim>\<open>Perform\<close> returns \<^verbatim>\<open>effectMarker[A]{op: op, k: k}\<close>, whose \<^verbatim>\<open>Resume(v)\<close> is
  \<^verbatim>\<open>m.k(v.(A))\<close>.
\<close>

definition effectMarker :: "gotype \<Rightarrow> Operation \<Rightarrow> (val \<Rightarrow> resumed res) \<Rightarrow> resumed" where
  "effectMarker A op k = Marker op (\<lambda>v. case cast A v of Inl p \<Rightarrow> Inl p | Inr a \<Rightarrow> k a)"

definition Perform :: "gotype \<Rightarrow> Operation \<Rightarrow> Eff" where
  "Perform A op = (\<lambda>k. Inr (effectMarker A op k))"

text \<open>
  A handler is its \<^verbatim>\<open>Dispatch\<close> method over the handler's own mutable state \<open>'h\<close>:
  it returns the pair \<^verbatim>\<open>(Resumed, bool)\<close> and the updated state, or panics; \<open>None\<close>
  means that a loop nested in the handler ran out of fuel.
\<close>

type_synonym 'h Handler = "'h \<Rightarrow> Operation \<Rightarrow> ((val \<times> bool) \<times> 'h) res option"

text \<open>
  \<^verbatim>\<open>handleDispatch\<close>: the trampoline loop. The fuel bounds the number of iterations
  of \<^verbatim>\<open>for { ... }\<close>; \<open>None\<close> is "still running".
\<close>

fun handleDispatch :: "nat \<Rightarrow> gotype \<Rightarrow> 'h Handler \<Rightarrow> 'h \<Rightarrow> resumed \<Rightarrow> (val \<times> 'h) res option" where
  "handleDispatch 0 R h \<sigma> result = None"
| "handleDispatch (Suc n) R h \<sigma> result =
    (case result of
       Marker op k \<Rightarrow>
         (case h \<sigma> op of
            None \<Rightarrow> None
          | Some (Inl p) \<Rightarrow> Some (Inl p)
          | Some (Inr ((v, shouldResume), \<sigma>')) \<Rightarrow>
              if \<not> shouldResume
              then (case cast R v of Inl p \<Rightarrow> Some (Inl p) | Inr r \<Rightarrow> Some (Inr (r, \<sigma>')))
              else (case k v of
                      Inl p \<Rightarrow> Some (Inl p)
                    | Inr result' \<Rightarrow> handleDispatch n R h \<sigma>' result'))
     | Fin v \<Rightarrow>
         if v = VNil then Some (Inr (zero R, \<sigma>))
         else (case cast R v of Inl p \<Rightarrow> Some (Inl p) | Inr r \<Rightarrow> Some (Inr (r, \<sigma>))))"

definition Handle :: "nat \<Rightarrow> gotype \<Rightarrow> Eff \<Rightarrow> 'h Handler \<Rightarrow> 'h \<Rightarrow> (val \<times> 'h) res option" where
  "Handle n R m h \<sigma> =
    (case m toResumed of
       Inl p \<Rightarrow> Some (Inl p)
     | Inr result \<Rightarrow> handleDispatch n R h \<sigma> result)"

section \<open>Frame form (frame.go, trampoline.go)\<close>

text \<open>\<^verbatim>\<open>type Expr[A any] struct { Value A; Frame Frame }\<close>.\<close>

datatype ('a, 'f) Expr = Expr (Value: 'a) (Frame: 'f)

text \<open>
  The frame variants that \<^verbatim>\<open>evalFrames\<close> tells apart in its type switches. The values
  that flow through the chain are \<^verbatim>\<open>Erased\<close>, that is, any \<^verbatim>\<open>Resumed\<close>.
  \<open>UnwindCapable\<close> is a frame of a type unknown to the switch that has the method
  \<^verbatim>\<open>Unwind(Erased) (Erased, Frame)\<close>; \<open>ForeignFrame\<close> is one that has not.
  \<open>chainedFrame first rest pooled\<close> is the chain node with its pool flag.
  The type is coinductive because a frame's function may return a chain that holds a
  frame with that same function (as the \<^verbatim>\<open>BindFrame\<close> of \<^verbatim>\<open>fromResumed\<close> does).
\<close>

codatatype frame =
    ReturnFrame
  | BindFrame "resumed \<Rightarrow> (resumed, frame) Expr res" frame
  | MapFrame "resumed \<Rightarrow> resumed res" frame
  | ThenFrame "(resumed, frame) Expr" frame
  | EffectFrame Operation "val \<Rightarrow> resumed res" frame
  | chainedFrame frame frame bool
  | UnwindCapable "resumed \<Rightarrow> (resumed \<times> frame) res"
  | ForeignFrame

text \<open>\<^verbatim>\<open>Expr[A]\<close> for an answer type and \<^verbatim>\<open>Expr[Erased]\<close>; \<open>erase\<close> is the conversion
  \<^verbatim>\<open>Expr[Erased]{Value: Erased(e.Value), Frame: e.Frame}\<close>.\<close>

type_synonym expr = "(val, frame) Expr"
type_synonym erased_expr = "(resumed, frame) Expr"

definition erase :: "expr \<Rightarrow> erased_expr" where
  "erase e = Expr (Fin (Value e)) (Frame e)"

definition ExprReturn :: "val \<Rightarrow> expr" where
  "ExprReturn a = Expr a ReturnFrame"

definition ExprSuspend :: "gotype \<Rightarrow> frame \<Rightarrow> expr" where
  "ExprSuspend A fr = Expr (zero A) fr"

definition identityResume :: "val \<Rightarrow> resumed res" where
  "identityResume v = Inr (Fin v)"

definition ExprPerform :: "gotype \<Rightarrow> Operation \<Rightarrow> expr" where
  "ExprPerform A op = Expr (zero A) (EffectFrame op identityResume ReturnFrame)"

text \<open>
  \<^verbatim>\<open>ChainFrames\<close> and its pooled twin \<^verbatim>\<open>chainFromPool\<close>. The type assertion
  \<^verbatim>\<open>first.(ReturnFrame)\<close> holds exactly for the return sentinel.
\<close>

definition ChainFrames :: "frame \<Rightarrow> frame \<Rightarrow> frame" where
  "ChainFrames first second =
    (if first = ReturnFrame then second
     else if second = ReturnFrame then first
     else chainedFrame first second False)"

definition chainFromPool :: "frame \<Rightarrow> frame \<Rightarrow> frame" where
  "chainFromPool first second =
    (if first = ReturnFrame then second
     else if second = ReturnFrame then first
     else chainedFrame first second True)"

text \<open>\<^verbatim>\<open>a.(A)\<close> on an \<^verbatim>\<open>Erased\<close>; a suspension marker is of no answer type of the model.\<close>

definition castE :: "gotype \<Rightarrow> resumed \<Rightarrow> val res" where
  "castE A c = (case c of Fin v \<Rightarrow> cast A v | Marker op k \<Rightarrow> Inl TypeAssertionError)"

definition ExprBind :: "gotype \<Rightarrow> gotype \<Rightarrow> expr \<Rightarrow> (val \<Rightarrow> expr) \<Rightarrow> expr" where
  "ExprBind A B m f =
    (if Frame m = ReturnFrame then f (Value m)
     else Expr (zero B)
            (ChainFrames (Frame m)
               (BindFrame (\<lambda>a. case castE A a of Inl p \<Rightarrow> Inl p | Inr a' \<Rightarrow> Inr (erase (f a')))
                  ReturnFrame)))"

definition ExprMap :: "gotype \<Rightarrow> gotype \<Rightarrow> expr \<Rightarrow> (val \<Rightarrow> val) \<Rightarrow> expr" where
  "ExprMap A B m f =
    (if Frame m = ReturnFrame then ExprReturn (f (Value m))
     else Expr (zero B)
            (ChainFrames (Frame m)
               (MapFrame (\<lambda>a. case castE A a of Inl p \<Rightarrow> Inl p | Inr a' \<Rightarrow> Inr (Fin (f a')))
                  ReturnFrame)))"

definition ExprThen :: "gotype \<Rightarrow> expr \<Rightarrow> expr \<Rightarrow> expr" where
  "ExprThen B m n =
    (if Frame m = ReturnFrame then n
     else Expr (zero B) (ChainFrames (Frame m) (ThenFrame (erase n) ReturnFrame)))"

text \<open>
  \<^verbatim>\<open>frameProcessor\<close>: the two methods, over the processor's mutable state \<open>'s\<close>.
  \<^verbatim>\<open>processEffect(f, rest)\<close> returns \<^verbatim>\<open>(Erased, Frame, R, bool)\<close>: with \<^verbatim>\<open>true\<close> the
  loop goes on from the first two components (\<open>GoOn\<close>), with \<^verbatim>\<open>false\<close> it returns the
  third (\<open>Leave\<close>). The effect frame \<^verbatim>\<open>f\<close> is passed as its three fields.
\<close>

datatype 'r effectStep = GoOn resumed frame | Leave 'r

type_synonym effectFrame = "Operation \<times> (val \<Rightarrow> resumed res) \<times> frame"

record ('s, 'r) frameProcessor =
  processEffect :: "'s \<Rightarrow> effectFrame \<Rightarrow> frame \<Rightarrow> ('r effectStep \<times> 's) res option"
  processReturn :: "'s \<Rightarrow> resumed \<Rightarrow> ('r \<times> 's) res"

text \<open>
  \<^verbatim>\<open>evalFrames\<close>. Both nested \<^verbatim>\<open>for\<close> loops look at \<^verbatim>\<open>frame\<close> afresh on each
  turn: a chain node is taken apart by the inner loop, any other frame by the switch of
  the outer one. One unit of fuel is one such turn. Releasing a node to its pool has no
  effect on the values computed and is not modelled.
\<close>

fun evalFrames :: "nat \<Rightarrow> ('s, 'r) frameProcessor \<Rightarrow> 's \<Rightarrow> resumed \<Rightarrow> frame \<Rightarrow> ('r \<times> 's) res option" where
  "evalFrames 0 p \<sigma> current fr = None"
| "evalFrames (Suc n) p \<sigma> current fr =
    (case fr of
       chainedFrame first rest pooled \<Rightarrow>
         (case first of
            chainedFrame nfirst nrest npooled \<Rightarrow>
              evalFrames n p \<sigma> current (chainFromPool nfirst (chainFromPool nrest rest))
          | ReturnFrame \<Rightarrow> evalFrames n p \<sigma> current rest
          | BindFrame F fNext \<Rightarrow>
              (case F current of
                 Inl e \<Rightarrow> Some (Inl e)
               | Inr next \<Rightarrow>
                   evalFrames n p \<sigma> (Value next)
                     (chainFromPool (chainFromPool (Frame next) fNext) rest))
          | MapFrame F fNext \<Rightarrow>
              (case F current of
                 Inl e \<Rightarrow> Some (Inl e)
               | Inr c \<Rightarrow> evalFrames n p \<sigma> c (chainFromPool fNext rest))
          | ThenFrame second fNext \<Rightarrow>
              evalFrames n p \<sigma> (Value second)
                (chainFromPool (chainFromPool (Frame second) fNext) rest)
          | EffectFrame op resume fNext \<Rightarrow>
              (case processEffect p \<sigma> (op, resume, fNext) (chainFromPool fNext rest) of
                 None \<Rightarrow> None
               | Some (Inl e) \<Rightarrow> Some (Inl e)
               | Some (Inr (Leave r, \<sigma>')) \<Rightarrow> Some (Inr (r, \<sigma>'))
               | Some (Inr (GoOn c f, \<sigma>')) \<Rightarrow> evalFrames n p \<sigma>' c f)
          | UnwindCapable u \<Rightarrow>
              (case u current of
                 Inl e \<Rightarrow> Some (Inl e)
               | Inr (c, next) \<Rightarrow> evalFrames n p \<sigma> c (chainFromPool next rest))
          | ForeignFrame \<Rightarrow> Some (Inl (PanicMsg ''kont: frame type does not implement Unwind'')))
     | ReturnFrame \<Rightarrow> Some (processReturn p \<sigma> current)
     | BindFrame F fNext \<Rightarrow>
         (case F current of
            Inl e \<Rightarrow> Some (Inl e)
          | Inr next \<Rightarrow> evalFrames n p \<sigma> (Value next) (chainFromPool (Frame next) fNext))
     | MapFrame F fNext \<Rightarrow>
         (case F current of
            Inl e \<Rightarrow> Some (Inl e)
          | Inr c \<Rightarrow> evalFrames n p \<sigma> c fNext)
     | ThenFrame second fNext \<Rightarrow>
         evalFrames n p \<sigma> (Value second) (chainFromPool (Frame second) fNext)
     | EffectFrame op resume fNext \<Rightarrow>
         (case processEffect p \<sigma> (op, resume, fNext) fNext of
            None \<Rightarrow> None
          | Some (Inl e) \<Rightarrow> Some (Inl e)
          | Some (Inr (Leave r, \<sigma>')) \<Rightarrow> Some (Inr (r, \<sigma>'))
          | Some (Inr (GoOn c f, \<sigma>')) \<Rightarrow> evalFrames n p \<sigma>' c f)
     | UnwindCapable u \<Rightarrow>
         (case u current of
            Inl e \<Rightarrow> Some (Inl e)
          | Inr (c, next) \<Rightarrow> evalFrames n p \<sigma> c next)
     | ForeignFrame \<Rightarrow> Some (Inl (PanicMsg ''kont: frame type does not implement Unwind'')))"

text \<open>\<^verbatim>\<open>handlerProcessor[H, R]\<close>: dispatch the operation, then resume or short-circuit.\<close>

definition handlerProcessor :: "gotype \<Rightarrow> 'h Handler \<Rightarrow> ('h, val) frameProcessor" where
  "handlerProcessor R h =
    \<lparr>processEffect = (\<lambda>\<sigma> (op, resume, fNext) rest.
        case h \<sigma> op of
          None \<Rightarrow> None
        | Some (Inl p) \<Rightarrow> Some (Inl p)
        | Some (Inr ((v, shouldResume), \<sigma>')) \<Rightarrow>
            if \<not> shouldResume
            then (case cast R v of Inl p \<Rightarrow> Some (Inl p) | Inr r \<Rightarrow> Some (Inr (Leave r, \<sigma>')))
            else (case resume v of
                    Inl p \<Rightarrow> Some (Inl p)
                  | Inr resumed \<Rightarrow> Some (Inr (GoOn resumed rest, \<sigma>')))),
      processReturn = (\<lambda>\<sigma> current.
        case castE R current of Inl p \<Rightarrow> Inl p | Inr r \<Rightarrow> Inr (r, \<sigma>))\<rparr>"

definition HandleExpr :: "nat \<Rightarrow> gotype \<Rightarrow> expr \<Rightarrow> 'h Handler \<Rightarrow> 'h \<Rightarrow> (val \<times> 'h) res option" where
  "HandleExpr n R m h \<sigma> = evalFrames n (handlerProcessor R h) \<sigma> (Fin (Value m)) (Frame m)"

text \<open>\<^verbatim>\<open>pureEval\<close>, the handler of \<^verbatim>\<open>RunPure\<close>, panics on every operation.\<close>

definition pureEval :: "unit Handler" where
  "pureEval \<sigma> op =
     Some (Inl (PanicMsg ''kont: unhandled effect frame in pure computation - use HandleExpr''))"

definition RunPure :: "nat \<Rightarrow> gotype \<Rightarrow> expr \<Rightarrow> val res option" where
  "RunPure n A c =
    (case evalFrames n (handlerProcessor A pureEval) () (Fin (Value c)) (Frame c) of
       None \<Rightarrow> None
     | Some (Inl p) \<Rightarrow> Some (Inl p)
     | Some (Inr (r, u)) \<Rightarrow> Some (Inr r))"

section \<open>Bridge (bridge.go)\<close>

text \<open>
  \<^verbatim>\<open>fromResumed\<close> builds, for a suspension \<^verbatim>\<open>s\<close>, the frame
  \<^verbatim>\<open>EffectFrame{s.Op(), s.Resume, BindFrame{F, ReturnFrame{}}}\<close> where \<^verbatim>\<open>F\<close> calls
  \<^verbatim>\<open>fromResumed\<close> again on the value that reaches it. The frame refers to itself
  through \<^verbatim>\<open>F\<close>, so it is defined by corecursion: \<open>reifyShape\<close> names the three
  frames that occur, \<open>classifyShape\<close> is the case analysis of \<^verbatim>\<open>fromResumed\<close> on its
  argument, and \<open>reifyFrame\<close> builds the frames. The equations of \<^verbatim>\<open>fromResumed\<close> as
  the source states them are the lemmas \<open>fromResumed_Fin\<close> and \<open>fromResumed_Marker\<close>.
\<close>

datatype reifyShape =
    is_BindShape: BindShape
  | is_EffectShape: EffectShape (shapeOp: Operation) (shapeResume: "val \<Rightarrow> resumed res")
  | is_ReturnShape: ReturnShape

definition classifyShape :: "gotype \<Rightarrow> resumed \<Rightarrow> (val, reifyShape) Expr res" where
  "classifyShape A r =
    (case r of
       Marker op k \<Rightarrow> Inr (Expr (zero A) (EffectShape op k))
     | Fin v \<Rightarrow>
         if v = VNil then Inr (Expr (zero A) ReturnShape)
         else (case cast A v of Inl p \<Rightarrow> Inl p | Inr a \<Rightarrow> Inr (Expr a ReturnShape)))"

primcorec reifyFrame :: "gotype \<Rightarrow> reifyShape \<Rightarrow> frame" where
  "reifyFrame A s =
    (if is_ReturnShape s then ReturnFrame
     else if is_EffectShape s
          then EffectFrame (shapeOp s) (shapeResume s) (reifyFrame A BindShape)
          else BindFrame
                 (\<lambda>v. map_sum id (map_Expr id (reifyFrame A))
                        (map_sum id (map_Expr Fin id) (classifyShape A v)))
                 (reifyFrame A ReturnShape))"

definition fromResumed :: "gotype \<Rightarrow> resumed \<Rightarrow> expr res" where
  "fromResumed A r = map_sum id (map_Expr id (reifyFrame A)) (classifyShape A r)"

definition Reify :: "gotype \<Rightarrow> Eff \<Rightarrow> expr res" where
  "Reify A m =
    (case m toResumed of
       Inl p \<Rightarrow> Inl p
     | Inr result \<Rightarrow> fromResumed A result)"

section \<open>Stepping boundary (the \<^verbatim>\<open>Suspension\<close> part of error.go)\<close>

text \<open>
  \<^verbatim>\<open>Suspension[A]\<close> is a mutable object reached through a pointer, and the Expr path
  hands the receiver's own memory back as the next suspension. The objects therefore
  live in a store: a pointer is an index into the list of allocated suspensions, and
  \<^verbatim>\<open>&Suspension[A]{...}\<close> appends to it. The fields \<^verbatim>\<open>used\<close>, \<^verbatim>\<open>op\<close>, \<^verbatim>\<open>cont\<close>,
  \<^verbatim>\<open>ef\<close>, \<^verbatim>\<open>rest\<close> carry the prefix \<open>s_\<close>. \<^verbatim>\<open>used\<close> is an \<^verbatim>\<open>atomic.Uintptr\<close>, 64 bits
  wide on a 64-bit platform; \<^verbatim>\<open>Add\<close> wraps around. A nil \<^verbatim>\<open>cont\<close>, \<^verbatim>\<open>ef\<close> or \<^verbatim>\<open>rest\<close>
  is \<open>None\<close>.
\<close>

record Suspension =
  s_used :: "64 word"
  s_op :: Operation
  s_cont :: "(Operation \<times> (val \<Rightarrow> resumed res)) option"
  s_ef :: "effectFrame option"
  s_rest :: "frame option"

type_synonym heap = "Suspension list"
type_synonym ptr = nat

definition classifyResumed :: "gotype \<Rightarrow> resumed \<Rightarrow> heap \<Rightarrow> ((val \<times> ptr option) \<times> heap) res" where
  "classifyResumed A result h =
    (case result of
       Marker op k \<Rightarrow>
         Inr ((zero A, Some (length h)),
              h @ [\<lparr>s_used = 0, s_op = op, s_cont = Some (op, k), s_ef = None, s_rest = None\<rparr>])
     | Fin v \<Rightarrow>
         if v = VNil then Inr ((zero A, None), h)
         else (case cast A v of Inl p \<Rightarrow> Inl p | Inr a \<Rightarrow> Inr ((a, None), h)))"

definition Step :: "gotype \<Rightarrow> Eff \<Rightarrow> heap \<Rightarrow> ((val \<times> ptr option) \<times> heap) res" where
  "Step A m h =
    (case m toResumed of
       Inl p \<Rightarrow> Inl p
     | Inr result \<Rightarrow> classifyResumed A result h)"

text \<open>
  The \<^verbatim>\<open>Erased\<close> that \<^verbatim>\<open>evalFrames[stepProcessor[A], Erased]\<close> returns is either a
  \<^verbatim>\<open>*Suspension[A]\<close> or the final value; \<^verbatim>\<open>classifyStepResult\<close> tells them apart by
  a type assertion.
\<close>

datatype stepped = SuspensionPtr ptr | Plain resumed

definition stepProcessor :: "ptr option \<Rightarrow> (heap, stepped) frameProcessor" where
  "stepProcessor reuse =
    \<lparr>processEffect = (\<lambda>h (op, resume, fNext) rest.
        case reuse of
          None \<Rightarrow>
            Some (Inr (Leave (SuspensionPtr (length h)),
                   h @ [\<lparr>s_used = 0, s_op = op, s_cont = None,
                          s_ef = Some (op, resume, fNext), s_rest = Some rest\<rparr>]))
        | Some a \<Rightarrow>
            if a < length h
            then Some (Inr (Leave (SuspensionPtr a),
                   h[a := (h ! a)\<lparr>s_used := 0, s_cont := None, s_op := op,
                                   s_ef := Some (op, resume, fNext), s_rest := Some rest\<rparr>]))
            else Some (Inl NilDereference)),
      processReturn = (\<lambda>h current. Inr (Plain current, h))\<rparr>"

definition classifyStepResult :: "gotype \<Rightarrow> stepped \<Rightarrow> (val \<times> ptr option) res" where
  "classifyStepResult A result =
    (case result of
       SuspensionPtr susp \<Rightarrow> Inr (zero A, Some susp)
     | Plain c \<Rightarrow> (case castE A c of Inl p \<Rightarrow> Inl p | Inr a \<Rightarrow> Inr (a, None)))"

definition StepExpr :: "nat \<Rightarrow> gotype \<Rightarrow> expr \<Rightarrow> heap \<Rightarrow> ((val \<times> ptr option) \<times> heap) res option" where
  "StepExpr n A m h =
    (case evalFrames n (stepProcessor None) h (Fin (Value m)) (Frame m) of
       None \<Rightarrow> None
     | Some (Inl p) \<Rightarrow> Some (Inl p)
     | Some (Inr (r, h')) \<Rightarrow>
         (case classifyStepResult A r of Inl p \<Rightarrow> Some (Inl p) | Inr x \<Rightarrow> Some (Inr (x, h'))))"

text \<open>
  What \<^verbatim>\<open>Resume\<close> and \<^verbatim>\<open>TryResume\<close> do once the guard has let them through. The
  store passed in already holds the incremented counter, and a panic leaves it so.
\<close>

definition advance :: "nat \<Rightarrow> gotype \<Rightarrow> ptr \<Rightarrow> val \<Rightarrow> heap \<Rightarrow> ((val \<times> ptr option) res \<times> heap) option" where
  "advance n A s v h =
    (case s_cont (h ! s) of
       Some (op, k) \<Rightarrow>
         (case k v of
            Inl p \<Rightarrow> Some (Inl p, h)
          | Inr r \<Rightarrow>
              (case classifyResumed A r h of
                 Inl p \<Rightarrow> Some (Inl p, h)
               | Inr (x, h') \<Rightarrow> Some (Inr x, h')))
     | None \<Rightarrow>
         (case (s_ef (h ! s), s_rest (h ! s)) of
            (Some (op, resume, fNext), Some rest) \<Rightarrow>
              (case resume v of
                 Inl p \<Rightarrow> Some (Inl p, h)
               | Inr c \<Rightarrow>
                   (case evalFrames n (stepProcessor (Some s)) h c rest of
                      None \<Rightarrow> None
                    | Some (Inl p) \<Rightarrow> Some (Inl p, h)
                    | Some (Inr (r, h')) \<Rightarrow>
                        (case classifyStepResult A r of
                           Inl p \<Rightarrow> Some (Inl p, h')
                         | Inr x \<Rightarrow> Some (Inr x, h'))))
          | _ \<Rightarrow> Some (Inl NilDereference, h)))"

definition Resume :: "nat \<Rightarrow> gotype \<Rightarrow> ptr \<Rightarrow> val \<Rightarrow> heap \<Rightarrow> ((val \<times> ptr option) res \<times> heap) option" where
  "Resume n A s v h =
    (if \<not> s < length h then Some (Inl NilDereference, h)
     else let h1 = h[s := (h ! s)\<lparr>s_used := s_used (h ! s) + 1\<rparr>] in
       if s_used (h1 ! s) \<noteq> 1
       then Some (Inl (PanicMsg ''kont: suspension resumed twice''), h1)
       else advance n A s v h1)"



section \<open>Affine continuation (affine.go)\<close>

text \<open>The fields \<^verbatim>\<open>used\<close> and \<^verbatim>\<open>resume\<close> carry the prefix \<open>a_\<close>.\<close>

record ('a, 'r) Affine =
  a_used :: "64 word"
  a_resume :: "'a \<Rightarrow> 'r"


definition Affine_Resume :: "('a, 'r) Affine \<Rightarrow> 'a \<Rightarrow> 'r res \<times> ('a, 'r) Affine" where
  "Affine_Resume a v =
    (let a1 = a\<lparr>a_used := a_used a + 1\<rparr> in
     if a_used a1 \<noteq> 1
     then (Inl (PanicMsg ''kont: affine continuation resumed twice''), a1)
     else (Inr (a_resume a1 v), a1))"

definition Affine_TryResume :: "'r \<Rightarrow> ('a, 'r) Affine \<Rightarrow> 'a \<Rightarrow> ('r \<times> bool) \<times> ('a, 'r) Affine" where
  "Affine_TryResume zeroR a v =
    (let a1 = a\<lparr>a_used := a_used a + 1\<rparr> in
     if a_used a1 \<noteq> 1
     then ((zeroR, False), a1)
     else ((a_resume a1 v, True), a1))"


section \<open>State effect\<close>

text \<open>
  An operation offers a dispatch capability by having the method; the structural
  assertion \<^verbatim>\<open>op.(interface{ DispatchState(state *S) (Resumed, bool) })\<close> finds it or
  does not. The methods return the pair and the new content of the pointer they are
  given.
\<close>

datatype 'a dispatched = NotImplemented | Dispatched 'a

definition DispatchState :: "Operation \<Rightarrow> val \<Rightarrow> ((val \<times> bool) \<times> val) dispatched" where
  "DispatchState op st =
    (case op of
       Get \<Rightarrow> Dispatched ((st, True), st)
     | Put v \<Rightarrow> Dispatched ((VUnit, True), v)
     | Modify f \<Rightarrow> Dispatched ((f st, True), f st)
     | _ \<Rightarrow> NotImplemented)"

definition stateHandler :: "val Handler" where
  "stateHandler st op =
    (case DispatchState op st of
       Dispatched x \<Rightarrow> Some (Inr x)
     | NotImplemented \<Rightarrow> Some (unhandledEffect ''StateHandler''))"

definition RunState :: "nat \<Rightarrow> gotype \<Rightarrow> val \<Rightarrow> Eff \<Rightarrow> (val \<times> val) res option" where
  "RunState n A initial m = Handle n A m stateHandler initial"

section \<open>Error effect (error.go)\<close>

record ErrorContext =
  Err :: val
  HasErr :: bool

definition rightCont :: "gotype \<Rightarrow> gotype \<Rightarrow> val \<Rightarrow> resumed res" where
  "rightCont E A a = Inr (Fin (Right E A a))"



text \<open>
  \<^verbatim>\<open>Throw.DispatchError\<close>, \<^verbatim>\<open>Catch.DispatchError\<close>, \<^verbatim>\<open>errorHandler.Dispatch\<close> and
  \<^verbatim>\<open>RunError\<close> call one another. \<open>runErrorFrom\<close> is \<^verbatim>\<open>RunError\<close> from the point where
  the computation has been applied to \<^verbatim>\<open>rightCont\<close>. The fuel bounds the trampoline
  of \<^verbatim>\<open>RunError\<close> and the depth of nested \<^verbatim>\<open>Catch\<close> bodies.
\<close>

fun DispatchError :: "nat \<Rightarrow> Operation \<Rightarrow> ErrorContext
      \<Rightarrow> ((val \<times> bool) \<times> ErrorContext) res option dispatched"
  and errorHandler :: "nat \<Rightarrow> gotype \<Rightarrow> gotype \<Rightarrow> ErrorContext Handler"
  and runErrorFrom :: "nat \<Rightarrow> gotype \<Rightarrow> gotype \<Rightarrow> resumed res \<Rightarrow> val res option"
where
  "DispatchError n (Throw e) ctx =
     Dispatched (Some (Inr ((VUnit, True), ctx\<lparr>Err := e, HasErr := True\<rparr>)))"
| "DispatchError n (Catch E A body handler) ctx =
     Dispatched
      (case runErrorFrom n E A body of
         None \<Rightarrow> None
       | Some (Inl p) \<Rightarrow> Some (Inl p)
       | Some (Inr bodyResult) \<Rightarrow>
           if IsLeft bodyResult
           then (case runErrorFrom n E A (handler (fst (GetLeft E bodyResult))) of
                   None \<Rightarrow> None
                 | Some (Inl p) \<Rightarrow> Some (Inl p)
                 | Some (Inr handlerResult) \<Rightarrow>
                     if IsLeft handlerResult
                     then Some (Inr ((VUnit, True),
                            ctx\<lparr>Err := fst (GetLeft E handlerResult), HasErr := True\<rparr>))
                     else Some (Inr ((fst (GetRight A handlerResult), True), ctx)))
           else Some (Inr ((fst (GetRight A bodyResult), True), ctx)))"
| "DispatchError n Get ctx = NotImplemented"
| "DispatchError n (Put v) ctx = NotImplemented"
| "DispatchError n (Modify f) ctx = NotImplemented"
| "DispatchError n Ask ctx = NotImplemented"
| "DispatchError n (Tell v) ctx = NotImplemented"
| "DispatchError n (OtherOp name) ctx = NotImplemented"
| "errorHandler n E A ctx op =
     (case DispatchError n op ctx of
        Dispatched None \<Rightarrow> None
      | Dispatched (Some (Inl p)) \<Rightarrow> Some (Inl p)
      | Dispatched (Some (Inr ((v, b), ctx'))) \<Rightarrow>
          if HasErr ctx' then Some (Inr ((Left E A (Err ctx'), False), ctx'))
          else Some (Inr ((v, True), ctx'))
      | NotImplemented \<Rightarrow> Some (unhandledEffect ''ErrorHandler''))"
| "runErrorFrom 0 E A result = None"
| "runErrorFrom (Suc n) E A result =
     (case result of
        Inl p \<Rightarrow> Some (Inl p)
      | Inr r \<Rightarrow>
          if r = Fin VNil then Some (Inr (Right E A (zero A)))
          else (case handleDispatch (Suc n) (T_Either E A) (errorHandler n E A)
                       \<lparr>Err = zero E, HasErr = False\<rparr> r of
                  None \<Rightarrow> None
                | Some (Inl p) \<Rightarrow> Some (Inl p)
                | Some (Inr (either, ctx')) \<Rightarrow> Some (Inr either)))"

definition RunError :: "nat \<Rightarrow> gotype \<Rightarrow> gotype \<Rightarrow> Eff \<Rightarrow> val res option" where
  "RunError n E A m = runErrorFrom n E A (m (rightCont E A))"

section \<open>Composed State+Error handler (compose.go)\<close>



section \<open>Driving a computation through the stepping boundary\<close>

text \<open>
  The loop of the \<^verbatim>\<open>Step\<close> documentation with the handler's answers given as a
  list: while a suspension is pending, note its \<^verbatim>\<open>Op()\<close> and \<^verbatim>\<open>Resume\<close> it with the
  next answer. The result is the list of operations seen, the last value and the
  suspension still pending, if any.
\<close>

fun driveSteps :: "nat \<Rightarrow> gotype \<Rightarrow> val list \<Rightarrow> val \<times> ptr option \<Rightarrow> heap
    \<Rightarrow> (Operation list \<times> val \<times> ptr option) res option" where
  "driveSteps n A vs (a, None) h = Some (Inr ([], a, None))"
| "driveSteps n A [] (a, Some s) h = Some (Inr ([], a, Some s))"
| "driveSteps n A (v # vs) (a, Some s) h =
    (case Resume n A s v h of
       None \<Rightarrow> None
     | Some (Inl p, h') \<Rightarrow> Some (Inl p)
     | Some (Inr x, h') \<Rightarrow>
         (case driveSteps n A vs x h' of
            None \<Rightarrow> None
          | Some (Inl p) \<Rightarrow> Some (Inl p)
          | Some (Inr (ops, r)) \<Rightarrow> Some (Inr (s_op (h ! s) # ops, r))))"

text \<open>
  The stateful program "let s = Get in Put(s+10); Get" in both forms. The function
  bound to \<^verbatim>\<open>Get\<close> is a \<^verbatim>\<open>func(s int)\<close>; \<open>withInt\<close> reads its argument.
\<close>

definition withInt :: "val \<Rightarrow> (go_int \<Rightarrow> 'a) \<Rightarrow> 'a \<Rightarrow> 'a" where
  "withInt v f d = (case v of VInt i \<Rightarrow> f i | _ \<Rightarrow> d)"

definition getPutGet :: Eff where
  "getPutGet =
    Bind (Perform T_int Get)
      (\<lambda>s. withInt s
         (\<lambda>i. Then (Perform T_unit (Put (VInt (i + 10)))) (Perform T_int Get))
         (Pure VNil))"

definition getPutGetExpr :: expr where
  "getPutGetExpr =
    ExprBind T_int T_int (ExprPerform T_int Get)
      (\<lambda>s. withInt s
         (\<lambda>i. ExprThen T_int (ExprPerform T_unit (Put (VInt (i + 10)))) (ExprPerform T_int Get))
         (ExprReturn VNil))"

section \<open>Where a trampoline stands after some resumptions\<close>




section \<open>Later attempts on a suspension or an affine continuation\<close>

text \<open>
  A later attempt is a \<^verbatim>\<open>Resume(v)\<close> or a \<^verbatim>\<open>TryResume(v)\<close>. It is refused when
  \<^verbatim>\<open>Resume\<close> panics with the double-resume message, when \<^verbatim>\<open>TryResume\<close> returns
  \<^verbatim>\<open>(zero, nil, false)\<close>. \<open>allRefused\<close> makes the attempts of a list one after the
  other on the same suspension, each on the store the one before has left.
\<close>

datatype 'a attempt = ResumeWith 'a | TryResumeWith 'a





definition Affine_after :: "'r \<Rightarrow> ('a, 'r) Affine \<Rightarrow> 'a attempt \<Rightarrow> ('a, 'r) Affine" where
  "Affine_after zeroR a at =
    (case at of
       ResumeWith v \<Rightarrow> snd (Affine_Resume a v)
     | TryResumeWith v \<Rightarrow> snd (Affine_TryResume zeroR a v))"





section \<open>Verified properties\<close>

subsection \<open>Auxiliary facts\<close>

lemma fromResumed_Fin:
  "fromResumed A (Fin v) =
    (if v = VNil then Inr (ExprReturn (zero A))
     else (case cast A v of Inl p \<Rightarrow> Inl p | Inr a \<Rightarrow> Inr (ExprReturn a)))"
  by (simp add: fromResumed_def classifyShape_def ExprReturn_def reifyFrame.ctr split: sum.splits)

lemma erase_fromResumed:
  "(case fromResumed A v of Inl p \<Rightarrow> Inl p | Inr e \<Rightarrow> Inr (erase e)) =
   map_sum id (map_Expr id (reifyFrame A)) (map_sum id (map_Expr Fin id) (classifyShape A v))"
proof (cases "classifyShape A v")
  case (Inl p)
  then show ?thesis by (simp add: fromResumed_def)
next
  case (Inr b)
  then show ?thesis by (cases b) (simp add: fromResumed_def erase_def)
qed

lemma fromResumed_Marker:
  "fromResumed A (Marker oper k) =
    Inr (Expr (zero A)
      (EffectFrame oper k
        (BindFrame (\<lambda>v. case fromResumed A v of Inl p \<Rightarrow> Inl p | Inr e \<Rightarrow> Inr (erase e))
           ReturnFrame)))"
  by (simp add: fromResumed_def[of A "Marker oper k"] classifyShape_def reifyFrame.ctr erase_fromResumed)







lemma word_succ_ne_one: "(c :: 64 word) \<noteq> 0 \<Longrightarrow> c + 1 \<noteq> 1"
  by simp















lemma Affine_fresh:
  "a_used a = 0 \<Longrightarrow>
   Affine_Resume a v = (Inr (a_resume a v), a\<lparr>a_used := 1\<rparr>)
   \<and> Affine_TryResume zeroR a v = ((a_resume a v, True), a\<lparr>a_used := 1\<rparr>)"
  by (simp add: Affine_Resume_def Affine_TryResume_def Let_def)



lemma Affine_after_counter:
  "a_used (foldl (Affine_after zeroR) a ats) = a_used a + of_nat (length ats)
   \<and> a_resume (foldl (Affine_after zeroR) a ats) = a_resume a"
proof (induction ats arbitrary: a)
  case Nil
  then show ?case by simp
next
  case (Cons at ats)
  have "a_used (Affine_after zeroR a at) = a_used a + 1 \<and> a_resume (Affine_after zeroR a at) = a_resume a"
    by (cases at) (simp_all add: Affine_after_def Affine_Resume_def Affine_TryResume_def Let_def)
  then show ?case using Cons.IH [of "Affine_after zeroR a at"] by simp
qed

lemma Affine_counter_wraps:
  assumes "a_used a = 1" and "length ats = 2 ^ 64 - 1"
  shows "Affine_Resume (foldl (Affine_after zeroR) a ats) v
           = (Inr (a_resume a v), (foldl (Affine_after zeroR) a ats)\<lparr>a_used := 1\<rparr>)"
proof -
  have "a_used (foldl (Affine_after zeroR) a ats) = (1 :: 64 word) + of_nat (2 ^ 64 - 1)"
    using Affine_after_counter [of zeroR a ats] assms by simp
  also have "\<dots> = 0" by simp
  finally have z: "a_used (foldl (Affine_after zeroR) a ats) = 0" .
  show ?thesis
    using Affine_fresh [OF z, of v zeroR] Affine_after_counter [of zeroR a ats] by simp
qed








subsection \<open>The claims\<close>


text \<open>
  C2. The closure-form combinators satisfy the monad laws as equalities of the
  embedded functions: left identity, right identity and associativity, at every
  answer type and, the equalities being between functions of the final
  continuation, for every final continuation.
\<close>

theorem C2_monad_laws:
  "Bind (Return a) f = f a
   \<and> Bind m Return = m
   \<and> Bind (Bind m f') g = Bind m (\<lambda>x. Bind (f' x) g)
   \<and> (\<forall>k. RunWith (Bind (Return a) f) k = RunWith (f a) k)
   \<and> (\<forall>k. RunWith (Bind m Return) k = RunWith m k)
   \<and> (\<forall>k. RunWith (Bind (Bind m f') g) k = RunWith (Bind m (\<lambda>x. Bind (f' x) g)) k)"
  by (simp add: Bind_def Return_def RunWith_def)

text \<open>
  C5. Shift/Reset arithmetic: \<^verbatim>\<open>Reset(Bind(Shift(k \<mapsto> k(1)+k(10)), x \<mapsto> Return(x*2)))\<close>
  run with the identity continuation yields 22.
\<close>

theorem C5_shift_reset_22:
  "Run (Reset (Bind (Shift (\<lambda>k. k 1 + k 10)) (\<lambda>x. Return (x * 2)))) = (22 :: go_int)"
  by (simp add: Run_def Reset_def Bind_def Shift_def Return_def identity_def)

text \<open>
  C7. Nil completion in the closure-world trampoline: whenever the loop variable of
  \<^verbatim>\<open>handleDispatch\<close> holds nil, be it right after the computation was applied to the
  initial continuation or after a resumption, the loop returns the zero value of the
  answer type \<open>R\<close> and does not panic.
\<close>

theorem C7_handle_nil_zero:
  "handleDispatch (Suc n) R h \<sigma> (Fin VNil) = Some (Inr (zero R, \<sigma>))
   \<and> (m toResumed = Inr (Fin VNil) \<longrightarrow> Handle (Suc n) R m h \<sigma> = Some (Inr (zero R, \<sigma>)))
   \<and> (m toResumed = Inr (Marker oper k) \<and> h \<sigma> oper = Some (Inr ((v, True), \<sigma>')) \<and> k v = Inr (Fin VNil)
        \<longrightarrow> Handle (Suc (Suc n)) R m h \<sigma> = Some (Inr (zero R, \<sigma>')))"
  by (simp add: Handle_def)

theorem C7_handle_nil_zero_witness:
  "Suspend (\<lambda>k. Inr (Fin VNil)) toResumed = Inr (Fin VNil)
   \<and> Handle (Suc 0) T_int (Suspend (\<lambda>k. Inr (Fin VNil))) stateHandler (VInt 7)
       = Some (Inr (VInt 0, VInt 7))
   \<and> Suspend (\<lambda>k. Inr (Marker Get (\<lambda>v. Inr (Fin VNil)))) toResumed
       = Inr (Marker Get (\<lambda>v. Inr (Fin VNil)))
   \<and> stateHandler (VInt 7) Get = Some (Inr ((VInt 7, True), VInt 7))
   \<and> Handle (Suc (Suc 0)) T_int (Suspend (\<lambda>k. Inr (Marker Get (\<lambda>v. Inr (Fin VNil)))))
        stateHandler (VInt 7) = Some (Inr (VInt 0, VInt 7))"
  using C7_handle_nil_zero [of 0 T_int stateHandler "VInt 7" "Suspend (\<lambda>k. Inr (Fin VNil))"]
    C7_handle_nil_zero [of 0 T_int stateHandler "VInt 7"
      "Suspend (\<lambda>k. Inr (Marker Get (\<lambda>v. Inr (Fin VNil))))" Get "\<lambda>v. Inr (Fin VNil)"
      "VInt 7" "VInt 7"]
  by (simp add: Suspend_def T_int_def stateHandler_def DispatchState_def)

text \<open>
  C8. A frame of an unknown type without the \<^verbatim>\<open>Unwind\<close> method makes \<^verbatim>\<open>evalFrames\<close>
  panic. The claim wants a different message for a frame that is the first operand of a
  chain node and for one outside any chain; the interpreter panics with the same
  message at both places, as evaluated here on the two inputs of the repository's tests
  \<^verbatim>\<open>TestUnwindPanicNonChained\<close> and \<^verbatim>\<open>TestUnwindPanicChained\<close>.
\<close>

theorem C8_same_panic_message:
  "RunPure (Suc n) T_int (Expr (VInt 42) ForeignFrame)
     = Some (Inl (PanicMsg ''kont: frame type does not implement Unwind''))
   \<and> RunPure (Suc n) T_int (Expr (VInt 42) (ChainFrames ForeignFrame (MapFrame Inr ReturnFrame)))
     = Some (Inl (PanicMsg ''kont: frame type does not implement Unwind''))
   \<and> evalFrames (Suc n) p \<sigma> c ForeignFrame
     = evalFrames (Suc n) p \<sigma> c (chainedFrame ForeignFrame rest pooled)"
  by (simp add: RunPure_def ChainFrames_def)

text \<open>
  C9. Identity elision of chain composition: with the return sentinel on either side,
  \<^verbatim>\<open>ChainFrames\<close> returns the other operand itself; a chain node (not pooled) is built
  only when neither operand is the sentinel. \<^verbatim>\<open>chainFromPool\<close> elides in the same way
  and marks the node it builds as pooled.
\<close>

theorem C9_chain_elision:
  "ChainFrames ReturnFrame x = x
   \<and> ChainFrames x ReturnFrame = x
   \<and> (x \<noteq> ReturnFrame \<and> y \<noteq> ReturnFrame \<longrightarrow> ChainFrames x y = chainedFrame x y False)
   \<and> chainFromPool ReturnFrame x = x
   \<and> chainFromPool x ReturnFrame = x
   \<and> (x \<noteq> ReturnFrame \<and> y \<noteq> ReturnFrame \<longrightarrow> chainFromPool x y = chainedFrame x y True)"
  by (simp add: ChainFrames_def chainFromPool_def)

theorem C9_chain_elision_witness:
  "ForeignFrame \<noteq> ReturnFrame \<and> MapFrame Inr ReturnFrame \<noteq> ReturnFrame
   \<and> ChainFrames ForeignFrame (MapFrame Inr ReturnFrame)
       = chainedFrame ForeignFrame (MapFrame Inr ReturnFrame) False
   \<and> chainFromPool ForeignFrame (MapFrame Inr ReturnFrame)
       = chainedFrame ForeignFrame (MapFrame Inr ReturnFrame) True"
  using C9_chain_elision [of ForeignFrame "MapFrame Inr ReturnFrame"]
  by simp

text \<open>
  C4. The program "let s = Get in Put(s+10); Get", stepped from the outside and resumed
  with 5, the unit value and 15: three suspensions, on \<^verbatim>\<open>Get\<close>, \<^verbatim>\<open>Put\<close> (of 15) and
  \<^verbatim>\<open>Get\<close> in this order, then the value 15 and no suspension; through \<^verbatim>\<open>Step\<close> on the
  closure form and through \<^verbatim>\<open>StepExpr\<close> on the frame form, as soon as the frame
  interpreter is allowed two turns per step.
\<close>

theorem C4_stepping_get_put_get:
  "(case Step T_int getPutGet [] of
      Inl p \<Rightarrow> Some (Inl p)
    | Inr (x, h) \<Rightarrow> driveSteps n T_int [VInt 5, VUnit, VInt 15] x h)
   = Some (Inr ([Get, Put (VInt 15), Get], VInt 15, None))
   \<and>
   (case StepExpr (Suc (Suc n)) T_int getPutGetExpr [] of
      None \<Rightarrow> None
    | Some (Inl p) \<Rightarrow> Some (Inl p)
    | Some (Inr (x, h)) \<Rightarrow> driveSteps (Suc (Suc n)) T_int [VInt 5, VUnit, VInt 15] x h)
   = Some (Inr ([Get, Put (VInt 15), Get], VInt 15, None))"
proof
  show "(case Step T_int getPutGet [] of
      Inl p \<Rightarrow> Some (Inl p)
    | Inr (x, h) \<Rightarrow> driveSteps n T_int [VInt 5, VUnit, VInt 15] x h)
   = Some (Inr ([Get, Put (VInt 15), Get], VInt 15, None))"
    by (simp add: Step_def getPutGet_def Bind_def Then_def Perform_def effectMarker_def
        classifyResumed_def toResumed_def T_int_def T_unit_def Resume_def advance_def cast_def
        withInt_def Let_def)
  show "(case StepExpr (Suc (Suc n)) T_int getPutGetExpr [] of
      None \<Rightarrow> None
    | Some (Inl p) \<Rightarrow> Some (Inl p)
    | Some (Inr (x, h)) \<Rightarrow> driveSteps (Suc (Suc n)) T_int [VInt 5, VUnit, VInt 15] x h)
   = Some (Inr ([Get, Put (VInt 15), Get], VInt 15, None))"
    by (simp add: StepExpr_def getPutGetExpr_def ExprBind_def ExprThen_def ExprPerform_def
        ExprReturn_def ChainFrames_def chainFromPool_def stepProcessor_def classifyStepResult_def
        castE_def erase_def identityResume_def T_int_def T_unit_def Resume_def advance_def
        cast_def withInt_def Let_def)
qed










end
